theory Spec2Isabelle
  imports Complex_Main
begin

chapter \<open>Support bot: scheduler, cooldown, handlers and text catalogue\<close>

text \<open>
  A shallow embedding of the stateful core of the support bot: the periodic-job
  scheduler (\<^verbatim>\<open>services/scheduler.py\<close>), the feedback cooldown
  (\<^verbatim>\<open>services/feedback.py\<close>), the user and admin text handlers
  (\<^verbatim>\<open>handlers/user.py\<close>, \<^verbatim>\<open>handlers/admin.py\<close>,
  \<^verbatim>\<open>handlers/callbacks.py\<close>) and the text catalogue
  (\<^verbatim>\<open>locales/__init__.py\<close>).

  Conventions. A Python dict is an association list in insertion order. A
  \<^verbatim>\<open>datetime\<close> is an integer number of microseconds, a
  \<^verbatim>\<open>timedelta(seconds=n)\<close> is \<open>n * 1000000\<close>. A raised exception is a value
  of the result. Text sent to a chat is recorded by the key of its template and not
  by the rendered string, since the locale files are data outside the code; a send
  for which a definition takes no outcome of the transport is taken to succeed.
\<close>

section \<open>Python dictionaries and time\<close>

type_synonym time = int

definition seconds :: "int \<Rightarrow> time" where
  "seconds n = n * 1000000"

text \<open>\<^verbatim>\<open>d[k] = v\<close>: an existing key keeps its place, a new key goes last.\<close>

fun dict_set :: "'k \<Rightarrow> 'v \<Rightarrow> ('k \<times> 'v) list \<Rightarrow> ('k \<times> 'v) list" where
  "dict_set k v [] = [(k, v)]"
| "dict_set k v ((k', v') # kvs) =
     (if k' = k then (k, v) # kvs else (k', v') # dict_set k v kvs)"

text \<open>\<^verbatim>\<open>d.get(k)\<close>.\<close>

fun dict_get :: "('k \<times> 'v) list \<Rightarrow> 'k \<Rightarrow> 'v option" where
  "dict_get [] k = None"
| "dict_get ((k', v) # kvs) k = (if k' = k then Some v else dict_get kvs k)"

text \<open>\<^verbatim>\<open>del d[k]\<close> for a key that is present; nothing otherwise.\<close>

definition dict_del :: "'k \<Rightarrow> ('k \<times> 'v) list \<Rightarrow> ('k \<times> 'v) list" where
  "dict_del k kvs = filter (\<lambda>kv. fst kv \<noteq> k) kvs"

section \<open>The scheduler service\<close>

text \<open>
  What awaiting a job's callable can do: return, raise an \<^verbatim>\<open>Exception\<close>, or let
  an \<^verbatim>\<open>asyncio.CancelledError\<close> through (a \<^verbatim>\<open>BaseException\<close>, which
  \<^verbatim>\<open>except Exception\<close> does not catch). A callable is a function from the clock
  reading at which it is awaited to its outcome and the time it takes.
\<close>

datatype outcome = Returned | Raised | Cancelled

record job_info =
  func :: "time \<Rightarrow> outcome \<times> time"
  interval :: int
  last_run :: "time option"
  next_run :: time

text \<open>The lines the scheduler writes to its logger, in order.\<close>

datatype log_entry =
    Executing string time
  | Completed string
  | Failed string
  | LoopCancelled
  | AlreadyRunning

record scheduler =
  tasks :: "nat list"
  running :: bool
  jobs :: "(string \<times> job_info) list"

definition new_scheduler :: scheduler where
  "new_scheduler = \<lparr>tasks = [], running = False, jobs = []\<rparr>"

definition add_job :: "string \<Rightarrow> (time \<Rightarrow> outcome \<times> time) \<Rightarrow> int \<Rightarrow> time \<Rightarrow> scheduler \<Rightarrow> scheduler" where
  "add_job job_id f interval_seconds now s =
     s\<lparr>jobs := dict_set job_id
          \<lparr>func = f, interval = interval_seconds, last_run = None, next_run = now\<rparr> (jobs s)\<rparr>"

definition remove_job :: "string \<Rightarrow> scheduler \<Rightarrow> scheduler" where
  "remove_job job_id s = s\<lparr>jobs := dict_del job_id (jobs s)\<rparr>"

text \<open>
  The \<^verbatim>\<open>for job_id, job_info in self.jobs.items()\<close> loop of one tick. \<open>now\<close> is
  the reading taken once before the loop; \<open>clk\<close> is the clock as the loop goes on
  (each awaited job moves it by the time the job takes). The result is the updated
  jobs, the log, the clock after the loop, and whether a \<^verbatim>\<open>CancelledError\<close> left
  the loop.
\<close>

fun run_jobs :: "time \<Rightarrow> time \<Rightarrow> (string \<times> job_info) list \<Rightarrow>
    (string \<times> job_info) list \<times> log_entry list \<times> time \<times> bool" where
  "run_jobs now clk [] = ([], [], clk, False)"
| "run_jobs now clk ((job_id, j) # rest) =
     (if now \<ge> next_run j then
        (case func j clk of
           (Returned, d) \<Rightarrow>
             (case run_jobs now (clk + d) rest of (rest', lg, clk', esc) \<Rightarrow>
                ((job_id, j\<lparr>last_run := Some now, next_run := now + seconds (interval j)\<rparr>) # rest',
                 Executing job_id clk # Completed job_id # lg, clk', esc))
         | (Raised, d) \<Rightarrow>
             (case run_jobs now (clk + d) rest of (rest', lg, clk', esc) \<Rightarrow>
                ((job_id, j\<lparr>next_run := now + seconds (interval j)\<rparr>) # rest',
                 Executing job_id clk # Failed job_id # lg, clk', esc))
         | (Cancelled, d) \<Rightarrow>
             ((job_id, j) # rest, [Executing job_id clk], clk + d, True))
      else
        (case run_jobs now clk rest of (rest', lg, clk', esc) \<Rightarrow>
           ((job_id, j) # rest', lg, clk', esc)))"

text \<open>
  One pass through the body of \<^verbatim>\<open>while self.running\<close> in
  \<^verbatim>\<open>_run_scheduler\<close>: the jobs after the pass, the log, and whether the loop goes
  on to \<^verbatim>\<open>await asyncio.sleep(1)\<close> (True) or the coroutine ends (False).
\<close>

definition loop_pass :: "time \<Rightarrow> scheduler \<Rightarrow> scheduler \<times> log_entry list \<times> bool" where
  "loop_pass now s =
     (if running s then
        (case run_jobs now now (jobs s) of (js, lg, clk, esc) \<Rightarrow>
           if esc then (s\<lparr>jobs := js\<rparr>, lg @ [LoopCancelled], False)
           else (s\<lparr>jobs := js\<rparr>, lg, True))
      else (s, [], False))"


text \<open>
  The event loop next to the service: the loop tasks that were created and have not
  finished, the next free task handle, and everything logged so far.
\<close>

record world =
  sched :: scheduler
  pending :: "nat list"
  fresh :: nat
  journal :: "log_entry list"

definition new_world :: world where
  "new_world = \<lparr>sched = new_scheduler, pending = [], fresh = 0, journal = []\<rparr>"

definition start :: "world \<Rightarrow> world" where
  "start w =
     (if running (sched w) then w\<lparr>journal := journal w @ [AlreadyRunning]\<rparr>
      else w\<lparr>sched := (sched w)\<lparr>running := True, tasks := tasks (sched w) @ [fresh w]\<rparr>,
             pending := pending w @ [fresh w],
             fresh := Suc (fresh w)\<rparr>)"

text \<open>
  \<^verbatim>\<open>task.cancel()\<close> followed by \<^verbatim>\<open>await task\<close>: a task that is still
  pending gets the \<^verbatim>\<open>CancelledError\<close> at the await it is suspended in, the loop's
  handler logs it and the coroutine returns; the await in \<^verbatim>\<open>stop\<close> returns once the
  task is done.
\<close>

definition cancel_and_await :: "nat \<Rightarrow> world \<Rightarrow> world" where
  "cancel_and_await t w =
     (if t \<in> set (pending w)
      then w\<lparr>pending := removeAll t (pending w), journal := journal w @ [LoopCancelled]\<rparr>
      else w)"

definition stop :: "world \<Rightarrow> world" where
  "stop w =
     (if \<not> running (sched w) then w
      else (let w' = fold cancel_and_await (tasks (sched w))
                       (w\<lparr>sched := (sched w)\<lparr>running := False\<rparr>\<rparr>)
            in w'\<lparr>sched := (sched w')\<lparr>tasks := []\<rparr>\<rparr>))"

text \<open>The event loop resumes loop task \<open>t\<close> at clock reading \<open>now\<close>.\<close>

definition resume :: "nat \<Rightarrow> time \<Rightarrow> world \<Rightarrow> world" where
  "resume t now w =
     (if t \<in> set (pending w) then
        (case loop_pass now (sched w) of (s', lg, continues) \<Rightarrow>
           w\<lparr>sched := s', journal := journal w @ lg,
             pending := (if continues then pending w else removeAll t (pending w))\<rparr>)
      else w)"

datatype event =
    Start
  | Stop
  | AddJob string "time \<Rightarrow> outcome \<times> time" int time
  | RemoveJob string
  | Resume nat time

fun step :: "event \<Rightarrow> world \<Rightarrow> world" where
  "step Start w = start w"
| "step Stop w = stop w"
| "step (AddJob job_id f n now) w = w\<lparr>sched := add_job job_id f n now (sched w)\<rparr>"
| "step (RemoveJob job_id) w = w\<lparr>sched := remove_job job_id (sched w)\<rparr>"
| "step (Resume t now) w = resume t now w"

definition run_events :: "event list \<Rightarrow> world \<Rightarrow> world" where
  "run_events es w = fold step es w"

text \<open>The jobs a log shows as started, in order.\<close>

fun executed :: "log_entry list \<Rightarrow> string list" where
  "executed [] = []"
| "executed (Executing job_id t # lg) = job_id # executed lg"
| "executed (_ # lg) = executed lg"





text \<open>
  What holds of every world the events can reach: a pending loop task is one of
  \<^verbatim>\<open>self.tasks\<close>, no loop task is pending while the running flag is clear, and at
  most one is pending.
\<close>

definition world_inv :: "world \<Rightarrow> bool" where
  "world_inv w = (set (pending w) \<subseteq> set (tasks (sched w))
                  \<and> (running (sched w) \<or> pending w = [])
                  \<and> length (pending w) \<le> 1)"



definition demo_history :: "event list" where
  "demo_history = [Start, AddJob ''cleanup_logs'' (\<lambda>t. (Returned, 0)) 3600 0, Resume 0 0]"

definition demo_later :: "event list" where
  "demo_later = [Resume 0 (seconds 3600), AddJob ''daily_backup'' (\<lambda>t. (Returned, 0)) 86400 0,
                 Stop, Resume 0 (seconds 7200)]"

section \<open>The feedback cooldown\<close>

text \<open>
  \<^verbatim>\<open>FeedbackService.check_cooldown\<close>. \<open>enabled\<close> and \<open>hours\<close> are the configuration
  constants \<^verbatim>\<open>FEEDBACK_COOLDOWN_ENABLED\<close> and \<^verbatim>\<open>FEEDBACK_COOLDOWN_HOURS\<close>;
  \<open>last_feedback\<close> is the dict of the service, \<open>now\<close> the reading of
  \<^verbatim>\<open>datetime.now(TIMEZONE)\<close>; \<open>hours\<close> is an integer. The source computes in
  float seconds, \<^verbatim>\<open>int((need - elapsed + 3599) // 3600)\<close>, on an elapsed time that a
  \<^verbatim>\<open>timedelta\<close> holds in whole microseconds; here the same floor quotient is taken
  on the microseconds themselves. The error message is
  \<^verbatim>\<open>get_text(key, lang=user_lang, hours=remaining)\<close>: the result carries its key and
  the \<^verbatim>\<open>hours\<close> parameter.
\<close>

definition cooldown_key :: "string \<Rightarrow> string" where
  "cooldown_key feedback_type = ''messages.'' @ feedback_type @ ''_cooldown''"

definition check_cooldown ::
  "bool \<Rightarrow> int \<Rightarrow> ((int \<times> string) \<times> time) list \<Rightarrow> int \<Rightarrow> string \<Rightarrow> time
     \<Rightarrow> bool \<times> (string \<times> int) option" where
  "check_cooldown enabled hours last_feedback user_id feedback_type now =
     (if \<not> enabled then (True, None)
      else
        (case dict_get last_feedback (user_id, feedback_type) of
           None \<Rightarrow> (True, None)
         | Some last_time \<Rightarrow>
             (let elapsed = now - last_time;
                  need = seconds (hours * 3600)
              in if elapsed \<ge> need then (True, None)
                 else (let remaining = (need - elapsed + seconds 3599) div seconds 3600
                       in (False, Some (cooldown_key feedback_type, remaining))))))"

definition update_last_feedback ::
  "int \<Rightarrow> string \<Rightarrow> time \<Rightarrow> ((int \<times> string) \<times> time) list \<Rightarrow> ((int \<times> string) \<times> time) list" where
  "update_last_feedback user_id feedback_type now last_feedback =
     dict_set (user_id, feedback_type) now last_feedback"

section \<open>The ticket store\<close>

datatype status = New | Working | Done

datatype actor = User | Support

record message =
  sender :: actor
  msg_text :: string
  timestamp :: time

record ticket =
  ticket_id :: nat
  user_id :: int
  username :: "string option"
  status :: status
  messages :: "message list"
  last_actor :: actor
  rating :: "string option"

record store =
  tickets :: "ticket list"
  next_id :: nat

datatype error = Already_active

text \<open>
  Modelled from the spec: \<^verbatim>\<open>services/tickets.py\<close> (\<^verbatim>\<open>ticket_service\<close>) is not
  among the source files. \<^verbatim>\<open>getActiveForUser(user_id)\<close> returns the non-done ticket
  of that user, or none.
\<close>

definition get_user_active_ticket :: "store \<Rightarrow> int \<Rightarrow> ticket option" where
  "get_user_active_ticket st uid =
     find (\<lambda>t. user_id t = uid \<and> status t \<noteq> Done) (tickets st)"

text \<open>
  Modelled from the spec: \<^verbatim>\<open>create_ticket\<close> of the missing
  \<^verbatim>\<open>services/tickets.py\<close>. \<^verbatim>\<open>create(user_id, text, username)\<close> fails with
  \<^verbatim>\<open>AlreadyActive\<close> if the user already holds a non-done ticket; otherwise it
  allocates a new ticket in state \<^verbatim>\<open>new\<close> with one message, sender user,
  \<^verbatim>\<open>last_actor = user\<close>. The identifier is drawn from a counter.
\<close>

definition create :: "store \<Rightarrow> int \<Rightarrow> string \<Rightarrow> string option \<Rightarrow> time \<Rightarrow> error + ticket \<times> store" where
  "create st uid txt uname now =
     (case get_user_active_ticket st uid of
        Some t \<Rightarrow> Inl Already_active
      | None \<Rightarrow>
          (let t = \<lparr>ticket_id = next_id st, user_id = uid, username = uname, status = New,
                    messages = [\<lparr>sender = User, msg_text = txt, timestamp = now\<rparr>],
                    last_actor = User, rating = None\<rparr>
           in Inr (t, st\<lparr>tickets := tickets st @ [t], next_id := Suc (next_id st)\<rparr>)))"

text \<open>
  Modelled from the spec: \<^verbatim>\<open>close_ticket\<close> of the missing
  \<^verbatim>\<open>services/tickets.py\<close>. \<^verbatim>\<open>close(ticket_id)\<close> moves the ticket to
  \<^verbatim>\<open>done\<close> from either \<^verbatim>\<open>new\<close> or \<^verbatim>\<open>working\<close>; an unknown id is
  \<^verbatim>\<open>NotFound\<close> and changes nothing.
\<close>

definition close :: "store \<Rightarrow> nat \<Rightarrow> (ticket \<times> store) option" where
  "close st tid =
     (case find (\<lambda>t. ticket_id t = tid) (tickets st) of
        None \<Rightarrow> None
      | Some t \<Rightarrow>
          Some (t\<lparr>status := Done\<rparr>,
                st\<lparr>tickets := map (\<lambda>t. if ticket_id t = tid then t\<lparr>status := Done\<rparr> else t)
                                  (tickets st)\<rparr>))"

text \<open>The invariant of the store: no user has two tickets that are not done.\<close>

definition single_active :: "store \<Rightarrow> bool" where
  "single_active st = distinct (map user_id (filter (\<lambda>t. status t \<noteq> Done) (tickets st)))"

definition active_count :: "store \<Rightarrow> int \<Rightarrow> nat" where
  "active_count st uid = length (filter (\<lambda>t. user_id t = uid \<and> status t \<noteq> Done) (tickets st))"


section \<open>Messages, conversation state and the bot\<close>

text \<open>A keyword argument's value, as far as the handlers pass one.\<close>

datatype arg = Int_arg int | Str_arg string | None_arg

text \<open>
  What a handler does to the outside, in order: a text to a chat (the key of the
  template and its parameters), a call of a service, an attempt to edit or to send a
  ticket card, a line of the log.
\<close>

datatype effect =
    Reply int string "(string \<times> arg) list"
  | Call_create_ticket int
  | Call_ban_user int string
  | Edit_card nat int string
  | Send_card nat string
  | Log_warning string
  | Log_error string

datatype conv_state =
    Awaiting_question
  | Awaiting_suggestion
  | Awaiting_review
  | Awaiting_reply
  | Awaiting_ban_user_id
  | Awaiting_ban_reason
  | Awaiting_unban_user_id
  | Search_ticket_input

text \<open>\<^verbatim>\<open>context.user_data\<close> of one user: the keys the handlers below read.\<close>

record user_data =
  state :: "conv_state option"
  ban_user_id :: "int option"

record bot =
  store :: store
  users :: "int \<Rightarrow> user_data"
  cards :: "(nat \<times> int) list"
  bans :: "(int \<times> string) list"
  trace :: "effect list"

definition new_bot :: bot where
  "new_bot = \<lparr>store = \<lparr>tickets = [], next_id = 0\<rparr>,
              users = (\<lambda>_. \<lparr>state = None, ban_user_id = None\<rparr>),
              cards = [], bans = [], trace = []\<rparr>"

definition set_state :: "int \<Rightarrow> conv_state option \<Rightarrow> bot \<Rightarrow> bot" where
  "set_state uid st b = b\<lparr>users := (users b)(uid := (users b uid)\<lparr>state := st\<rparr>)\<rparr>"

definition emit :: "effect list \<Rightarrow> bot \<Rightarrow> bot" where
  "emit fx b = b\<lparr>trace := trace b @ fx\<rparr>"

text \<open>
  Modelled from the spec: \<^verbatim>\<open>services/bans.py\<close> (\<^verbatim>\<open>ban_manager\<close>) is not among
  the source files. \<^verbatim>\<open>isBanned(userId)\<close> tells whether the registry has a record
  for the user; \<^verbatim>\<open>ban(userId, reason)\<close> stores the reason under the user;
  \<^verbatim>\<open>list()\<close> is the list of the records itself.
\<close>

definition is_banned :: "(int \<times> string) list \<Rightarrow> int \<Rightarrow> bool" where
  "is_banned bs uid = (dict_get bs uid \<noteq> None)"

definition ban_user :: "int \<Rightarrow> string \<Rightarrow> (int \<times> string) list \<Rightarrow> (int \<times> string) list" where
  "ban_user uid reason bs = dict_set uid reason bs"

section \<open>The ticket card\<close>

text \<open>
  What the transport answers to \<^verbatim>\<open>edit_message_text\<close>: the message was edited;
  or the call raises, either because the new content equals the old one (Telegram's
  ``Message is not modified'', which \<^verbatim>\<open>callbacks.py\<close> tells apart in
  \<^verbatim>\<open>search_ticket_start\<close> and \<^verbatim>\<open>admin_home\<close>) or for any other reason. And
  to \<^verbatim>\<open>send_message\<close>: the new message's id, or the call raises.
\<close>

datatype edit_result = Edited | Not_modified | Edit_failed

datatype send_result = Sent int | Send_failed

text \<open>
  The tail of \<^verbatim>\<open>send_or_update_ticket_card\<close>: send a new message and record its
  id; a failure is caught by the outer handler and logged.
\<close>

definition send_new_card ::
  "nat \<Rightarrow> string \<Rightarrow> send_result \<Rightarrow> (nat \<times> int) list \<Rightarrow> (nat \<times> int) list \<times> effect list" where
  "send_new_card tid action send_res cs =
     (case send_res of
        Sent n \<Rightarrow> (dict_set tid n cs, [Send_card tid action])
      | Send_failed \<Rightarrow>
          (cs, [Send_card tid action, Log_error ''Failed to send/update ticket card'']))"

text \<open>
  \<^verbatim>\<open>send_or_update_ticket_card(context, ticket_id, action, message_id)\<close> on the
  tickets of the data manager and \<^verbatim>\<open>TICKET_CARD_MESSAGES\<close>. \<open>edit_res\<close> and
  \<open>send_res\<close> are what the transport answers if it is called. The card's text and
  keyboard are left out (building them is taken not to raise); they do not decide
  what is edited, sent or recorded. \<^verbatim>\<open>if message_id:\<close> is false for
  \<^verbatim>\<open>None\<close> and for 0.
\<close>

definition send_or_update_ticket_card ::
  "ticket list \<Rightarrow> nat \<Rightarrow> string \<Rightarrow> int option \<Rightarrow> edit_result \<Rightarrow> send_result
     \<Rightarrow> (nat \<times> int) list \<Rightarrow> (nat \<times> int) list \<times> effect list" where
  "send_or_update_ticket_card all_tickets tid action message_id edit_res send_res cs =
     (case find (\<lambda>t. ticket_id t = tid) all_tickets of
        None \<Rightarrow> (cs, [Log_error ''Ticket not found''])
      | Some ticket \<Rightarrow>
          (case message_id of
             None \<Rightarrow> send_new_card tid action send_res cs
           | Some m \<Rightarrow>
               if m = 0 then send_new_card tid action send_res cs
               else
                 (case edit_res of
                    Edited \<Rightarrow> (dict_set tid m cs, [Edit_card tid m action])
                  | Not_modified \<Rightarrow>
                      (case send_new_card tid action send_res cs of (cs', fx) \<Rightarrow>
                         (cs', Edit_card tid m action
                               # Log_warning ''Failed to edit, will recreate'' # fx))
                  | Edit_failed \<Rightarrow>
                      (case send_new_card tid action send_res cs of (cs', fx) \<Rightarrow>
                         (cs', Edit_card tid m action
                               # Log_warning ''Failed to edit, will recreate'' # fx)))))"

section \<open>The question flow\<close>

text \<open>The \<^verbatim>\<open>user_start_question\<close> branch of \<^verbatim>\<open>callback_handler\<close>.\<close>

definition user_start_question :: "int \<Rightarrow> bot \<Rightarrow> bot" where
  "user_start_question uid b =
     set_state uid (Some Awaiting_question)
       (emit [Reply uid ''messages.describe_question'' [(''n'', Int_arg 20)]] b)"

text \<open>\<^verbatim>\<open>ask_question_handler\<close>; \<open>min_len\<close> is \<^verbatim>\<open>ASK_MIN_LENGTH\<close>.\<close>

definition ask_question_handler :: "int \<Rightarrow> int \<Rightarrow> bot \<Rightarrow> bot" where
  "ask_question_handler min_len uid b =
     (if is_banned (bans b) uid then emit [Reply uid ''messages.banned'' []] b
      else
        (case get_user_active_ticket (store b) uid of
           Some t \<Rightarrow>
             emit [Reply uid ''messages.ticket_in_progress''
                     [(''ticket_id'', Int_arg (int (ticket_id t)))]] b
         | None \<Rightarrow>
             emit [Reply uid ''messages.describe_question'' [(''n'', Int_arg min_len)]]
               (set_state uid (Some Awaiting_question) b)))"

text \<open>
  \<^verbatim>\<open>handle_question_text\<close>. The text is a list of characters, one per character
  of the Python string. A failure of \<^verbatim>\<open>create_ticket\<close> leaves the handler as an
  exception; the handler has no handler of its own for it.
\<close>

definition handle_question_text ::
  "int \<Rightarrow> time \<Rightarrow> send_result \<Rightarrow> int \<Rightarrow> string option \<Rightarrow> string \<Rightarrow> bot \<Rightarrow> error + bot" where
  "handle_question_text min_len now send_res uid uname txt b =
     (if int (length txt) < min_len then
        Inr (emit [Reply uid ''messages.min_length'' [(''n'', Int_arg min_len)]] b)
      else
        (case create (store b) uid txt uname now of
           Inl e \<Rightarrow> Inl e
         | Inr (t, st) \<Rightarrow>
             (case send_or_update_ticket_card (tickets st) (ticket_id t) ''new'' None
                     Edited send_res (cards b) of
                (cs, fx) \<Rightarrow>
                  Inr ((emit ([Call_create_ticket uid,
                               Reply uid ''messages.ticket_created''
                                 [(''ticket_id'', Int_arg (int (ticket_id t)))]] @ fx)
                         (set_state uid None (b\<lparr>store := st\<rparr>)))\<lparr>cards := cs\<rparr>))))"

text \<open>
  The operations on tickets a run is made of: the press of the ``ask a question''
  button, the \<^verbatim>\<open>ask_question_handler\<close> command, a text that
  \<^verbatim>\<open>text_message_handler\<close> routes to \<^verbatim>\<open>handle_question_text\<close> (the user's
  state is \<^verbatim>\<open>awaiting_question\<close>; a text in another state is not a question and
  is left out of the run), and the store's own \<^verbatim>\<open>create\<close> and \<^verbatim>\<open>close\<close>.
  A handler that raises leaves the bot as it was.
\<close>

datatype bot_event =
    Press_start_question int
  | Ask_question int
  | Submit int "string option" string time send_result
  | Create_ticket int string "string option" time
  | Close_ticket nat

fun step_bot :: "int \<Rightarrow> bot_event \<Rightarrow> bot \<Rightarrow> bot" where
  "step_bot min_len (Press_start_question uid) b = user_start_question uid b"
| "step_bot min_len (Ask_question uid) b = ask_question_handler min_len uid b"
| "step_bot min_len (Submit uid uname txt now send_res) b =
     (if state (users b uid) = Some Awaiting_question then
        (case handle_question_text min_len now send_res uid uname txt b of
           Inl e \<Rightarrow> b
         | Inr b' \<Rightarrow> b')
      else b)"
| "step_bot min_len (Create_ticket uid txt uname now) b =
     (case create (store b) uid txt uname now of
        Inl e \<Rightarrow> b
      | Inr (t, st) \<Rightarrow> b\<lparr>store := st\<rparr>)"
| "step_bot min_len (Close_ticket tid) b =
     (case close (store b) tid of
        None \<Rightarrow> b
      | Some (t, st) \<Rightarrow> b\<lparr>store := st\<rparr>)"

definition run_bot :: "int \<Rightarrow> bot_event list \<Rightarrow> bot \<Rightarrow> bot" where
  "run_bot min_len evs b = fold (step_bot min_len) evs b"

section \<open>The ban flow of the admin\<close>

text \<open>
  The end of the \<^verbatim>\<open>awaiting_ban_reason\<close> branch of \<^verbatim>\<open>admin_text_handler\<close>:
  ban the user and report it.
\<close>

definition ban_and_report :: "int \<Rightarrow> int \<Rightarrow> string \<Rightarrow> bot \<Rightarrow> bot" where
  "ban_and_report admin target txt b =
     emit [Call_ban_user target txt,
           Reply admin ''admin.user_banned'' [(''user_id'', Int_arg target), (''reason'', Str_arg txt)]]
       (set_state admin None (b\<lparr>bans := ban_user target txt (bans b)\<rparr>))"

text \<open>
  The \<^verbatim>\<open>awaiting_ban_reason\<close> branch of \<^verbatim>\<open>admin_text_handler\<close>, for the
  admin \<open>admin\<close> and the text \<open>txt\<close>. \<^verbatim>\<open>if user_id:\<close> and
  \<^verbatim>\<open>if ban_reason:\<close> are Python's truth tests: an id that is \<^verbatim>\<open>None\<close> or 0
  and a reason that is \<^verbatim>\<open>None\<close> or the empty string are false.
\<close>

definition admin_ban_reason :: "int \<Rightarrow> string \<Rightarrow> bot \<Rightarrow> bot" where
  "admin_ban_reason admin txt b =
     (case ban_user_id (users b admin) of
        None \<Rightarrow> b
      | Some target \<Rightarrow>
          if target = 0 then b
          else
            (case find (\<lambda>p. fst p = target) (bans b) of
               None \<Rightarrow> ban_and_report admin target txt b
             | Some p \<Rightarrow>
                 if snd p \<noteq> [] then
                   set_state admin None
                     (emit [Reply admin ''admin.user_already_banned_reason''
                              [(''user_id'', Int_arg target), (''reason'', Str_arg (snd p))]] b)
                 else ban_and_report admin target txt b))"


section \<open>The text catalogue\<close>

text \<open>
  A value loaded from a locale file by \<^verbatim>\<open>json.load\<close>, which is also what
  \<^verbatim>\<open>get_text\<close> can return; and the exceptions that occur in it.
\<close>

datatype json =
    JStr string
  | JNum int
  | JBool bool
  | JNull
  | JArr "json list"
  | JObj "(string \<times> json) list"

datatype py_error = KeyError | AttributeError | TypeError | ValueError | IndexError

text \<open>\<^verbatim>\<open>key.split(".")\<close>.\<close>

fun split_dots :: "string \<Rightarrow> string list" where
  "split_dots [] = [[]]"
| "split_dots (c # cs) =
     (if c = CHR ''.'' then [] # split_dots cs
      else (case split_dots cs of
              w # ws \<Rightarrow> (c # w) # ws
            | [] \<Rightarrow> [[c]]))"

text \<open>
  \<^verbatim>\<open>value[k]\<close> for a string \<open>k\<close>: a dict looks the key up; a string, a list, a
  number, a boolean and \<^verbatim>\<open>None\<close> raise \<^verbatim>\<open>TypeError\<close>.
\<close>

fun subscript :: "json \<Rightarrow> string \<Rightarrow> py_error + json" where
  "subscript (JObj kvs) k = (case dict_get kvs k of Some v \<Rightarrow> Inr v | None \<Rightarrow> Inl KeyError)"
| "subscript (JStr s) k = Inl TypeError"
| "subscript (JNum n) k = Inl TypeError"
| "subscript (JBool b) k = Inl TypeError"
| "subscript JNull k = Inl TypeError"
| "subscript (JArr vs) k = Inl TypeError"

text \<open>\<^verbatim>\<open>for k in keys: value = value[k]\<close>.\<close>

fun navigate :: "json \<Rightarrow> string list \<Rightarrow> py_error + json" where
  "navigate v [] = Inr v"
| "navigate v (k # ks) =
     (case subscript v k of
        Inl e \<Rightarrow> Inl e
      | Inr v' \<Rightarrow> navigate v' ks)"

text \<open>Python's truth test on an optional string.\<close>

definition truthy_str :: "string option \<Rightarrow> bool" where
  "truthy_str s = (case s of None \<Rightarrow> False | Some x \<Rightarrow> x \<noteq> [])"

text \<open>
  \<^verbatim>\<open>get_user_locale\<close>: the in-memory preference, else the stored one (\<open>stored\<close>
  stands for the data manager, any failure of which is caught and counts as no
  preference), else the global locale. The cache it fills on the way does not change
  what it returns.
\<close>

definition get_user_locale ::
  "(arg \<times> string) list \<Rightarrow> (arg \<Rightarrow> string option) \<Rightarrow> string option \<Rightarrow> arg \<Rightarrow> string option" where
  "get_user_locale user_locales stored current uid =
     (case dict_get user_locales uid of
        Some l \<Rightarrow> Some l
      | None \<Rightarrow> if truthy_str (stored uid) then stored uid else current)"

text \<open>
  The first part of \<^verbatim>\<open>get_text\<close>: which locale is used. \<^verbatim>\<open>lang\<close> stands in
  for a missing \<^verbatim>\<open>locale\<close>; an explicit locale wins, then the locale of the
  \<^verbatim>\<open>user_id\<close> keyword if it is given and not \<^verbatim>\<open>None\<close>, then the global one.
\<close>

definition effective_locale ::
  "string option \<Rightarrow> (arg \<times> string) list \<Rightarrow> (arg \<Rightarrow> string option)
     \<Rightarrow> string option \<Rightarrow> string option \<Rightarrow> (string \<times> arg) list \<Rightarrow> string option" where
  "effective_locale current user_locales stored lang locale kwargs =
     (let locale' = (if truthy_str lang \<and> \<not> truthy_str locale then lang else locale);
          uid = (case dict_get kwargs ''user_id'' of None \<Rightarrow> None_arg | Some a \<Rightarrow> a)
      in if truthy_str locale' then locale'
         else if uid \<noteq> None_arg then get_user_locale user_locales stored current uid
         else current)"

text \<open>
  The second part: \<^verbatim>\<open>_locales_data[current_locale]\<close> and the walk along the
  dot-separated key.
\<close>

definition lookup_key :: "(string \<times> json) list \<Rightarrow> string \<Rightarrow> string \<Rightarrow> py_error + json" where
  "lookup_key locales_data loc key =
     (case dict_get locales_data loc of
        None \<Rightarrow> Inl KeyError
      | Some catalogue \<Rightarrow> navigate catalogue (split_dots key))"

text \<open>
  The third part: formatting. \<open>fmt\<close> is Python's \<^verbatim>\<open>str.format\<close> with keyword
  arguments only. The inner handlers catch \<^verbatim>\<open>KeyError\<close> and \<^verbatim>\<open>ValueError\<close>
  and return the template; the outer handler catches \<^verbatim>\<open>KeyError\<close>,
  \<^verbatim>\<open>AttributeError\<close> and \<^verbatim>\<open>TypeError\<close> (a value that is not a string has no
  \<^verbatim>\<open>format\<close>) and returns the empty string; an \<^verbatim>\<open>IndexError\<close> is caught by
  neither.
\<close>

definition format_value ::
  "(string \<Rightarrow> (string \<times> arg) list \<Rightarrow> py_error + string) \<Rightarrow> json \<Rightarrow> (string \<times> arg) list
     \<Rightarrow> py_error + json" where
  "format_value fmt v kwargs =
     (if kwargs = [] then Inr v
      else
        (let format_kwargs = filter (\<lambda>kv. fst kv \<noteq> ''user_id'') kwargs
         in if format_kwargs = [] then Inr v
            else
              (case v of
                 JStr s \<Rightarrow>
                   (case fmt s format_kwargs of
                      Inr r \<Rightarrow> Inr (JStr r)
                    | Inl KeyError \<Rightarrow> Inr v
                    | Inl ValueError \<Rightarrow> Inr v
                    | Inl AttributeError \<Rightarrow> Inr (JStr [])
                    | Inl TypeError \<Rightarrow> Inr (JStr [])
                    | Inl IndexError \<Rightarrow> Inl IndexError)
               | JNum n \<Rightarrow> Inr (JStr [])
               | JBool b \<Rightarrow> Inr (JStr [])
               | JNull \<Rightarrow> Inr (JStr [])
               | JArr vs \<Rightarrow> Inr (JStr [])
               | JObj kvs \<Rightarrow> Inr (JStr []))))"

text \<open>
  \<^verbatim>\<open>get_text(key, lang, locale, **kwargs)\<close> on the module's state
  (\<^verbatim>\<open>_locales_data\<close>, \<^verbatim>\<open>_current_locale\<close>, \<^verbatim>\<open>_user_locales\<close>). The result is
  the value returned, or the exception that leaves the function.
\<close>

definition get_text ::
  "(string \<Rightarrow> (string \<times> arg) list \<Rightarrow> py_error + string)
     \<Rightarrow> (string \<times> json) list \<Rightarrow> string option \<Rightarrow> (arg \<times> string) list \<Rightarrow> (arg \<Rightarrow> string option)
     \<Rightarrow> string \<Rightarrow> string option \<Rightarrow> string option \<Rightarrow> (string \<times> arg) list \<Rightarrow> py_error + json" where
  "get_text fmt locales_data current user_locales stored key lang locale kwargs =
     (case effective_locale current user_locales stored lang locale kwargs of
        None \<Rightarrow> Inr (JStr [])
      | Some loc \<Rightarrow>
          if loc = [] then Inr (JStr [])
          else
            (case lookup_key locales_data loc key of
               Inl e \<Rightarrow> Inr (JStr [])
             | Inr v \<Rightarrow> format_value fmt v kwargs))"

text \<open>A result that is a returned string.\<close>

definition returns_string :: "py_error + json \<Rightarrow> bool" where
  "returns_string r = (case r of Inr (JStr s) \<Rightarrow> True | _ \<Rightarrow> False)"

text \<open>A small catalogue, as \<^verbatim>\<open>load_locales\<close> leaves it.\<close>

definition demo_locales :: "(string \<times> json) list" where
  "demo_locales =
     [(''en'', JObj [(''messages'', JObj [(''welcome'', JStr ''Hello {name}''),
                                          (''banned'', JStr ''You are banned'')]),
                     (''rating'', JObj [(''good'', JStr ''Good'')])])]"

section \<open>Sample data\<close>

text \<open>A question long enough for a minimum of 20, and a run of the bot in which user 5
  presses the button and submits it twice, and the store is asked once more.\<close>

definition demo_question :: string where
  "demo_question = ''My order has not arrived yet''"

definition demo_run :: "bot_event list" where
  "demo_run =
     [Press_start_question 5, Submit 5 None demo_question 0 (Sent 100),
      Press_start_question 5, Submit 5 None demo_question 1 (Sent 101),
      Create_ticket 5 demo_question None 2]"

text \<open>User 5 holds the ticket of a first question and has pressed the button again.\<close>

definition demo_holder :: bot where
  "demo_holder =
     run_bot 20 [Press_start_question 5, Submit 5 None demo_question 0 (Sent 100),
                 Press_start_question 5] new_bot"

text \<open>The admin (user 1) has entered 42 as the user to ban and is asked for the reason;
  user 42 is already banned with \<open>reason1\<close>.\<close>

definition demo_admin_bot :: "string \<Rightarrow> bot" where
  "demo_admin_bot reason1 =
     new_bot\<lparr>bans := [(42, reason1)],
             users := (users new_bot)(1 := \<lparr>state = Some Awaiting_ban_reason, ban_user_id = Some 42\<rparr>)\<rparr>"

text \<open>A closed ticket whose card is message 100.\<close>

definition demo_ticket :: ticket where
  "demo_ticket = \<lparr>ticket_id = 3, user_id = 5, username = None, status = Done,
                   messages = [], last_actor = Support, rating = None\<rparr>"


chapter \<open>Properties\<close>

section \<open>One pass of the scheduler loop\<close>















section \<open>Starting and stopping the scheduler\<close>

lemma fold_cancel_sched: "sched (fold cancel_and_await ts w) = sched w"
  by (induction ts arbitrary: w) (auto simp: cancel_and_await_def)

lemma cancel_pending: "pending (cancel_and_await t w) = filter (\<lambda>x. t \<noteq> x) (pending w)"
  by (simp add: cancel_and_await_def removeAll_filter_not_eq[symmetric])

lemma executed_append: "executed (lg @ lg') = executed lg @ executed lg'"
  by (induction lg rule: executed.induct) auto

lemma cancel_executed: "executed (journal (cancel_and_await t w)) = executed (journal w)"
  by (simp add: cancel_and_await_def executed_append)

lemma fold_cancel_executed:
  "executed (journal (fold cancel_and_await ts w)) = executed (journal w)"
  by (induction ts arbitrary: w) (auto simp: cancel_executed)

lemma fold_cancel_pending:
  "pending (fold cancel_and_await ts w) = filter (\<lambda>t. t \<notin> set ts) (pending w)"
proof (induction ts arbitrary: w)
  case Nil
  then show ?case by simp
next
  case (Cons t ts)
  then show ?case by (auto simp: cancel_pending intro: filter_cong)
qed

lemma filter_covered: "set xs \<subseteq> set ts \<Longrightarrow> filter (\<lambda>t. t \<notin> set ts) xs = []"
  by (auto simp: filter_empty_conv)

lemma loop_pass_running: "loop_pass now s = (s', lg, c) \<Longrightarrow> running s' = running s \<and> tasks s' = tasks s"
  by (auto simp: loop_pass_def split: if_splits prod.splits)

lemma start_inv: "world_inv w \<Longrightarrow> world_inv (start w)"
  by (auto simp: world_inv_def start_def)

lemma stop_inv: "world_inv w \<Longrightarrow> world_inv (stop w)"
  by (auto simp: world_inv_def stop_def Let_def fold_cancel_sched fold_cancel_pending filter_covered)

lemma removeAll_short: "length xs \<le> 1 \<Longrightarrow> t \<in> set xs \<Longrightarrow> removeAll t xs = []"
  by (cases xs) auto

lemma resume_inv: "world_inv w \<Longrightarrow> world_inv (resume t now w)"
proof (cases "loop_pass now (sched w)")
  case (fields s' lg c)
  assume "world_inv w"
  with fields loop_pass_running[OF fields] show ?thesis
    by (auto simp: world_inv_def resume_def removeAll_short)
qed

lemma step_inv: "world_inv w \<Longrightarrow> world_inv (step e w)"
  by (cases e) (auto simp: start_inv stop_inv resume_inv, auto simp: world_inv_def add_job_def remove_job_def)

lemma run_events_inv: "world_inv w \<Longrightarrow> world_inv (run_events es w)"
  unfolding run_events_def by (induction es arbitrary: w) (auto simp: step_inv)

lemma new_world_inv: "world_inv new_world"
  by (simp add: world_inv_def new_world_def new_scheduler_def)


lemma stop_quiet:
  "world_inv w \<Longrightarrow> pending (stop w) = [] \<and> \<not> running (sched (stop w))
     \<and> executed (journal (stop w)) = executed (journal w)"
  by (auto simp: world_inv_def stop_def Let_def fold_cancel_sched fold_cancel_pending
      fold_cancel_executed filter_covered)

lemma step_idle:
  "pending w = [] \<Longrightarrow> \<not> running (sched w) \<Longrightarrow> e \<noteq> Start \<Longrightarrow>
   pending (step e w) = [] \<and> \<not> running (sched (step e w))
     \<and> executed (journal (step e w)) = executed (journal w)"
  by (cases e) (auto simp: stop_def resume_def add_job_def remove_job_def)

lemma run_events_idle:
  "pending w = [] \<Longrightarrow> \<not> running (sched w) \<Longrightarrow> Start \<notin> set es \<Longrightarrow>
   pending (run_events es w) = [] \<and> \<not> running (sched (run_events es w))
     \<and> executed (journal (run_events es w)) = executed (journal w)"
  unfolding run_events_def
proof (induction es arbitrary: w)
  case Nil
  then show ?case by simp
next
  case (Cons e es)
  from Cons.prems have e: "e \<noteq> Start" and es: "Start \<notin> set es" by auto
  from step_idle[OF Cons.prems(1,2) e] Cons.IH[of "step e w", OF _ _ es] show ?case by simp
qed

lemma demo_history_run:
  "executed (journal (run_events demo_history new_world)) = [''cleanup_logs'']"
  by (simp add: demo_history_def run_events_def new_world_def new_scheduler_def start_def
      add_job_def resume_def loop_pass_def)

text \<open>
  C4. After \<^verbatim>\<open>stop()\<close> has returned, no job function is executed: whatever the
  history before the stop, and whatever events follow it short of a new
  \<^verbatim>\<open>start()\<close> (passes of the old loop task that the event loop might still try,
  jobs added or removed, further stops), the jobs executed are those executed before
  the stop, no loop task is pending and the running flag is clear. The stop clears the running flag and cancels
  and awaits every task of \<^verbatim>\<open>self.tasks\<close>; calls are taken one at a time, as in
  \<^verbatim>\<open>main.py\<close>.
\<close>

theorem no_job_after_stop:
  assumes "Start \<notin> set es"
  shows "executed (journal (run_events (history @ Stop # es) new_world))
           = executed (journal (run_events history new_world))
         \<and> pending (run_events (history @ Stop # es) new_world) = []
         \<and> \<not> running (sched (run_events (history @ Stop # es) new_world))"
proof -
  let ?w = "run_events history new_world"
  have inv: "world_inv ?w" by (rule run_events_inv[OF new_world_inv])
  have split: "run_events (history @ Stop # es) new_world = run_events es (stop ?w)"
    by (simp add: run_events_def)
  from stop_quiet[OF inv] have q: "pending (stop ?w) = []" "\<not> running (sched (stop ?w))"
    "executed (journal (stop ?w)) = executed (journal ?w)" by simp_all
  from run_events_idle[OF q(1,2) assms] q(3) split show ?thesis
    by simp
qed

theorem no_job_after_stop_witness:
  "Start \<notin> set demo_later
   \<and> executed (journal (run_events (demo_history @ Stop # demo_later) new_world)) = [''cleanup_logs'']"
  using no_job_after_stop[of demo_later demo_history] demo_history_run
  by (simp add: demo_later_def)

text \<open>
  C10. \<^verbatim>\<open>start()\<close> with the running flag set changes nothing of the scheduler and
  creates no task (it only logs a warning); and in every world the events can reach
  from the initial one, at most one loop task is pending.
\<close>

theorem start_once:
  "(running (sched w) \<longrightarrow>
      sched (start w) = sched w \<and> pending (start w) = pending w \<and> fresh (start w) = fresh w)
   \<and> length (pending (run_events es new_world)) \<le> 1"
proof -
  have "world_inv (run_events es new_world)" by (rule run_events_inv[OF new_world_inv])
  then show ?thesis by (simp add: world_inv_def start_def)
qed

theorem start_once_witness:
  "running (sched (run_events demo_history new_world))
   \<and> sched (start (run_events demo_history new_world)) = sched (run_events demo_history new_world)
   \<and> pending (start (run_events demo_history new_world)) = [0]
   \<and> length (pending (run_events (demo_history @ [Start, Start]) new_world)) \<le> 1"
proof -
  have r: "running (sched (run_events demo_history new_world))"
    "pending (run_events demo_history new_world) = [0]"
    by (simp_all add: demo_history_def run_events_def new_world_def new_scheduler_def start_def
      add_job_def resume_def loop_pass_def)
  from start_once[of "run_events demo_history new_world" "demo_history @ [Start, Start]"] r
  show ?thesis by simp
qed

section \<open>The feedback cooldown\<close>






text \<open>Half a second before the window ends the hours shown are 0: the \<open>+ 3599\<close>
  rounds whole seconds up, not fractions of a second.\<close>

lemma cooldown_half_second:
  "check_cooldown True 1 [((7, ''review''), 0)] 7 ''review'' 3599500000
     = (False, Some (''messages.review_cooldown'', 0))"
  by (simp add: check_cooldown_def seconds_def cooldown_key_def)


section \<open>At most one active ticket\<close>

lemma find_none_active:
  "get_user_active_ticket st uid = None \<Longrightarrow>
   uid \<notin> set (map user_id (filter (\<lambda>t. status t \<noteq> Done) (tickets st)))"
  by (auto simp: get_user_active_ticket_def find_None_iff)

lemma create_single_active:
  "single_active st \<Longrightarrow> create st uid txt uname now = Inr (t, st') \<Longrightarrow> single_active st'"
  using find_none_active[of st uid]
  by (auto simp: create_def single_active_def Let_def split: option.splits)

lemma close_filter:
  "map user_id (filter (\<lambda>t. status t \<noteq> Done)
      (map (\<lambda>t. if ticket_id t = tid then t\<lparr>status := Done\<rparr> else t) ts))
   = map user_id (filter (\<lambda>t. ticket_id t \<noteq> tid) (filter (\<lambda>t. status t \<noteq> Done) ts))"
  by (induction ts) auto

lemma close_single_active:
  assumes "single_active st" and "close st tid = Some (t, st')"
  shows "single_active st'"
proof -
  from assms(2) have st': "tickets st' =
      map (\<lambda>t. if ticket_id t = tid then t\<lparr>status := Done\<rparr> else t) (tickets st)"
    by (auto simp: close_def split: option.splits)
  from assms(1) have "distinct (map user_id (filter (\<lambda>t. ticket_id t \<noteq> tid)
      (filter (\<lambda>t. status t \<noteq> Done) (tickets st))))"
    unfolding single_active_def by (rule distinct_map_filter)
  then show ?thesis
    unfolding single_active_def st' close_filter .
qed

lemma set_state_store [simp]: "store (set_state uid x b) = store b"
  by (simp add: set_state_def)

lemma emit_store [simp]: "store (emit fx b) = store b"
  by (simp add: emit_def)

lemma handle_question_text_store:
  "handle_question_text min_len now send_res uid uname txt b = Inr b' \<Longrightarrow>
   store b' = store b \<or> (\<exists>t. create (store b) uid txt uname now = Inr (t, store b'))"
  by (auto simp: handle_question_text_def split: if_splits sum.splits prod.splits)

lemma step_bot_single_active:
  "single_active (store b) \<Longrightarrow> single_active (store (step_bot min_len ev b))"
proof (cases ev)
  case (Submit uid uname question now send_res)
  assume inv: "single_active (store b)"
  show ?thesis
  proof (cases "handle_question_text min_len now send_res uid uname question b")
    case (Inl e)
    with Submit inv show ?thesis by simp
  next
    case (Inr b')
    from handle_question_text_store[OF Inr] inv have "single_active (store b')"
      by (auto dest: create_single_active)
    with Submit Inr inv show ?thesis by simp
  qed
next
  case (Create_ticket uid question uname now)
  assume "single_active (store b)"
  with Create_ticket show ?thesis
    by (auto split: sum.splits dest: create_single_active)
next
  case (Close_ticket tid)
  assume "single_active (store b)"
  with Close_ticket show ?thesis
    by (auto split: option.splits dest: close_single_active)
qed (simp_all add: user_start_question_def ask_question_handler_def split: option.splits)

lemma run_bot_single_active:
  "single_active (store b) \<Longrightarrow> single_active (store (run_bot min_len evs b))"
  unfolding run_bot_def
  by (induction evs arbitrary: b) (auto simp: step_bot_single_active)

lemma distinct_count:
  "distinct (map f (filter P xs)) \<Longrightarrow> length (filter (\<lambda>t. f t = u \<and> P t) xs) \<le> 1"
proof (induction xs)
  case Nil
  then show ?case by simp
next
  case (Cons x xs)
  show ?case
  proof (cases "f x = u \<and> P x")
    case True
    with Cons.prems have "u \<notin> set (map f (filter P xs))" by auto
    then have "filter (\<lambda>t. f t = u \<and> P t) xs = []"
      by (auto simp: filter_empty_conv)
    with True show ?thesis by simp
  next
    case False
    with Cons show ?thesis by (auto split: if_splits)
  qed
qed

lemma single_active_count: "single_active st \<Longrightarrow> active_count st uid \<le> 1"
  unfolding single_active_def active_count_def by (rule distinct_count)

lemma demo_run_tickets:
  "map ticket_id (tickets (store (run_bot 20 demo_run new_bot))) = [0]
   \<and> active_count (store (run_bot 20 demo_run new_bot)) 5 = 1"
  by (simp add: demo_run_def run_bot_def new_bot_def demo_question_def user_start_question_def
      set_state_def emit_def handle_question_text_def create_def get_user_active_ticket_def
      send_or_update_ticket_card_def send_new_card_def active_count_def Let_def)

text \<open>
  C1. Over every run of question submissions, ticket creations and closes (and of
  the two ways into \<^verbatim>\<open>awaiting_question\<close>), a store in which no user has two
  tickets that are not done stays so: every user has at most one such ticket. In
  particular a question submitted by a user who holds an active ticket creates none:
  \<^verbatim>\<open>create\<close> fails with \<^verbatim>\<open>AlreadyActive\<close>, or the text is too short and the
  store is left as it was.
\<close>

theorem single_active_ticket:
  "(single_active (store b) \<longrightarrow>
      single_active (store (run_bot min_len evs b))
      \<and> active_count (store (run_bot min_len evs b)) u \<le> 1)
   \<and> (get_user_active_ticket (store b) uid \<noteq> None \<longrightarrow>
        handle_question_text min_len now send_res uid uname txt b = Inl Already_active
        \<or> (int (length txt) < min_len
            \<and> (\<exists>b'. handle_question_text min_len now send_res uid uname txt b = Inr b'
                    \<and> store b' = store b)))"
proof -
  have "handle_question_text min_len now send_res uid uname txt b = Inl Already_active
        \<or> (int (length txt) < min_len
            \<and> (\<exists>b'. handle_question_text min_len now send_res uid uname txt b = Inr b'
                    \<and> store b' = store b))"
    if "get_user_active_ticket (store b) uid \<noteq> None"
    using that by (auto simp: handle_question_text_def create_def)
  then show ?thesis
    using run_bot_single_active[of b min_len evs] single_active_count by blast
qed

lemma demo_holder_active:
  "map_option ticket_id (get_user_active_ticket (store demo_holder) 5) = Some 0
   \<and> state (users demo_holder 5) = Some Awaiting_question
   \<and> \<not> int (length demo_question) < 20"
  by (simp add: demo_holder_def run_bot_def new_bot_def demo_question_def user_start_question_def
      set_state_def emit_def handle_question_text_def create_def get_user_active_ticket_def
      send_or_update_ticket_card_def send_new_card_def Let_def)

theorem single_active_ticket_witness:
  "single_active (store new_bot)
   \<and> active_count (store (run_bot 20 demo_run new_bot)) 5 = 1
   \<and> single_active (store (run_bot 20 demo_run new_bot))
   \<and> get_user_active_ticket (store demo_holder) 5 \<noteq> None
   \<and> handle_question_text 20 1 (Sent 101) 5 None demo_question demo_holder = Inl Already_active"
proof -
  have a: "single_active (store new_bot)" by (simp add: single_active_def new_bot_def)
  have b: "get_user_active_ticket (store demo_holder) 5 \<noteq> None"
    using demo_holder_active by auto
  from single_active_ticket[of new_bot 20 demo_run 5] a demo_run_tickets
  have 1: "single_active (store (run_bot 20 demo_run new_bot))" by simp
  from single_active_ticket[of demo_holder 20 "[]" 5 5 1 "Sent 101" None demo_question] b
    demo_holder_active
  have 2: "handle_question_text 20 1 (Sent 101) 5 None demo_question demo_holder = Inl Already_active"
    by simp
  from a b 1 2 demo_run_tickets show ?thesis by simp
qed

section \<open>A question that is too short\<close>





section \<open>The re-ban guard\<close>

text \<open>The guard as far as it goes: a target that is banned with a non-empty reason is
  reported with that reason and not banned again, and the admin is back to idle.\<close>

lemma find_dict_get: "find (\<lambda>p. fst p = k) bs = (case dict_get bs k of None \<Rightarrow> None | Some v \<Rightarrow> Some (k, v))"
  by (induction bs) auto

lemma reban_guard:
  assumes "ban_user_id (users b admin) = Some target" and "target \<noteq> 0"
    and "dict_get (bans b) target = Some reason1" and "reason1 \<noteq> []"
  shows "admin_ban_reason admin reason2 b =
           set_state admin None
             (emit [Reply admin ''admin.user_already_banned_reason''
                      [(''user_id'', Int_arg target), (''reason'', Str_arg reason1)]] b)"
  using assms by (simp add: admin_ban_reason_def find_dict_get)

lemma reban_guard_demo:
  "bans (admin_ban_reason 1 ''flood'' (demo_admin_bot ''spam'')) = [(42, ''spam'')]
   \<and> trace (admin_ban_reason 1 ''flood'' (demo_admin_bot ''spam''))
       = [Reply 1 ''admin.user_already_banned_reason''
            [(''user_id'', Int_arg 42), (''reason'', Str_arg ''spam'')]]
   \<and> state (users (admin_ban_reason 1 ''flood'' (demo_admin_bot ''spam'')) 1) = None"
  by (simp add: admin_ban_reason_def demo_admin_bot_def new_bot_def set_state_def emit_def)


section \<open>Rendering a ticket card\<close>

lemma render_edit_ok:
  "find (\<lambda>t. ticket_id t = tid) ts = Some t \<Longrightarrow> m \<noteq> 0 \<Longrightarrow>
   send_or_update_ticket_card ts tid action (Some m) Edited send_res cs
     = (dict_set tid m cs, [Edit_card tid m action])"
  by (simp add: send_or_update_ticket_card_def)

lemma render_edit_failed:
  "find (\<lambda>t. ticket_id t = tid) ts = Some t \<Longrightarrow> m \<noteq> 0 \<Longrightarrow>
   send_or_update_ticket_card ts tid action (Some m) Edit_failed (Sent n) cs
     = (dict_set tid n cs,
        [Edit_card tid m action, Log_warning ''Failed to edit, will recreate'', Send_card tid action])"
  by (simp add: send_or_update_ticket_card_def send_new_card_def)

text \<open>
  C8 fails where the edit is answered with ``Message is not modified'':
  \<^verbatim>\<open>send_or_update_ticket_card\<close> catches it like every other failure, logs
  ``Failed to edit, will recreate'', sends a new message and records the new id.
\<close>

theorem render_unchanged_sends_again:
  "send_or_update_ticket_card [demo_ticket] 3 ''closed'' (Some 100) Not_modified (Sent 101) [(3, 100)]
     = ([(3, 101)],
        [Edit_card 3 100 ''closed'', Log_warning ''Failed to edit, will recreate'',
         Send_card 3 ''closed''])"
  by (simp add: send_or_update_ticket_card_def send_new_card_def demo_ticket_def)

section \<open>The text catalogue\<close>

lemma get_text_unknown_key:
  "get_text fmt demo_locales None [] (\<lambda>u. None) ''messages.nothing'' (Some ''en'') None kwargs
     = Inr (JStr [])"
  by (simp add: get_text_def effective_locale_def lookup_key_def demo_locales_def truthy_str_def)

lemma get_text_no_locale:
  "get_text fmt data None uls stored key None None [] = Inr (JStr [])"
  by (simp add: get_text_def effective_locale_def truthy_str_def)

lemma format_value_total:
  assumes "\<And>s kw. fmt s kw \<noteq> Inl IndexError"
  shows "\<exists>w. format_value fmt v kwargs = Inr w"
proof (cases v)
  case (JStr s)
  then show ?thesis
    using assms[of s "filter (\<lambda>kv. fst kv \<noteq> ''user_id'') kwargs"]
    by (cases "fmt s (filter (\<lambda>kv. fst kv \<noteq> ''user_id'') kwargs)")
       (auto simp: format_value_def Let_def split: py_error.splits)
qed (simp_all add: format_value_def Let_def)

lemma get_text_total_without_index_error:
  assumes "\<And>s kw. fmt s kw \<noteq> Inl IndexError"
  shows "\<exists>v. get_text fmt data cur uls stored key lang locale kwargs = Inr v"
  using format_value_total[OF assms]
  by (simp add: get_text_def split: option.split sum.split)

lemma format_value_string:
  assumes "\<And>s kw. fmt s kw \<noteq> Inl IndexError"
  shows "returns_string (format_value fmt (JStr s) kwargs)"
  using assms[of s "filter (\<lambda>kv. fst kv \<noteq> ''user_id'') kwargs"]
  by (cases "fmt s (filter (\<lambda>kv. fst kv \<noteq> ''user_id'') kwargs)")
     (auto simp: format_value_def Let_def returns_string_def split: py_error.splits)

lemma format_value_ignores_user_id:
  "format_value fmt (JStr s) [(''user_id'', a)] = Inr (JStr s)"
  by (simp add: format_value_def)

text \<open>An \<^verbatim>\<open>IndexError\<close> of \<^verbatim>\<open>str.format\<close> (a positional field such as
  \<^verbatim>\<open>{}\<close> in the template, with keyword arguments only) leaves \<^verbatim>\<open>get_text\<close>.\<close>

lemma get_text_index_error:
  assumes "effective_locale cur uls stored lang locale kwargs = Some loc" and "loc \<noteq> []"
    and "lookup_key data loc key = Inr (JStr s)"
    and "filter (\<lambda>kv. fst kv \<noteq> ''user_id'') kwargs \<noteq> []"
    and "fmt s (filter (\<lambda>kv. fst kv \<noteq> ''user_id'') kwargs) = Inl IndexError"
  shows "get_text fmt data cur uls stored key lang locale kwargs = Inl IndexError"
  using assms by (auto simp: get_text_def format_value_def Let_def)

text \<open>
  C9 fails for a key that names an inner node of the catalogue: with no format
  parameters \<^verbatim>\<open>get_text\<close> returns the node itself, a dict and not a string.
\<close>

theorem get_text_returns_dict:
  "get_text fmt demo_locales None [] (\<lambda>u. None) ''messages'' (Some ''en'') None []
     = Inr (JObj [(''welcome'', JStr ''Hello {name}''), (''banned'', JStr ''You are banned'')])
   \<and> \<not> returns_string
         (get_text fmt demo_locales None [] (\<lambda>u. None) ''messages'' (Some ''en'') None [])"
  by (simp add: get_text_def effective_locale_def lookup_key_def format_value_def
      demo_locales_def truthy_str_def returns_string_def)

end
